theory Spec2Isabelle
  imports Complex_Main
begin

section \<open>Data model of the checkout page\<close>

text \<open>
  The checkout page (\<^verbatim>\<open>client/src/pages/checkout.tsx\<close>) keeps its own React state
  (\<^verbatim>\<open>currentStep\<close>, \<^verbatim>\<open>completedSteps\<close>, \<^verbatim>\<open>updatingItems\<close>, \<^verbatim>\<open>isPlacingOrder\<close>) and reads
  the cart context obtained from \<^verbatim>\<open>useCart()\<close>. A handler is a closure of the render that
  created it: what it reads (\<^verbatim>\<open>currentStep\<close>, \<^verbatim>\<open>completedSteps\<close>) is the state that render
  showed, while its updates are applied to the pending state. A handler is modelled as
  a function to the state after its updates; where it is called on the state its
  render showed, one state argument stands for both.
\<close>

type_synonym money = rat

text \<open>
  \<^verbatim>\<open>interface CartItem\<close>. The field \<^verbatim>\<open>price: number | string\<close> carries a decimal amount;
  it is represented by that amount. \<^verbatim>\<open>id\<close> and \<^verbatim>\<open>name\<close> are prefixed, since several
  interfaces of the page use the same field names.
\<close>

record CartItem =
  item_id :: string
  item_name :: string
  price :: money
  quantity :: int
  category :: "string option"
  image :: "string option"

text \<open>\<^verbatim>\<open>interface DeliveryOption\<close>.\<close>

record DeliveryOption =
  option_id :: string
  option_name :: string
  option_price :: money
  estimatedDays :: "nat option"

text \<open>The applied coupon of the cart context: a code and the discount it grants.\<close>

record Coupon =
  coupon_code :: string
  coupon_discountAmount :: money

text \<open>
  The part of the cart context that the page destructures from \<^verbatim>\<open>useCart()\<close>. The
  shipping address and the payment data are never inspected by the handlers below
  (only tested for presence, or handed to \<^verbatim>\<open>validatePaymentData\<close>), so their types
  are parameters.
\<close>

record ('addr, 'pd) cart_context =
  items :: "CartItem list"
  appliedCoupon :: "Coupon option"
  paymentData :: 'pd
  shippingAddress :: "'addr option"
  deliveryOption :: "DeliveryOption option"
  isLoading :: bool

text \<open>\<^verbatim>\<open>type CheckoutStep\<close>: the four step names the page uses.\<close>

datatype CheckoutStep = Cart | Shipping | Payment | Review

text \<open>The argument of \<^verbatim>\<open>toast({...})\<close>.\<close>

record toast =
  title :: string
  description :: string
  variant :: "string option"
  duration :: "nat option"

text \<open>
  The state of the \<^verbatim>\<open>Checkout\<close> component: the cart context it reads, its
  \<^verbatim>\<open>useState\<close> cells, the route handed to \<^verbatim>\<open>setLocation\<close> (if it was called) and the
  toasts shown so far.
\<close>

record ('addr, 'pd) checkout =
  cart :: "('addr, 'pd) cart_context"
  updatingItems :: "string set"
  currentStep :: CheckoutStep
  completedSteps :: "CheckoutStep list"
  isPlacingOrder :: bool
  navigatedTo :: "string option"
  toasts :: "toast list"

text \<open>The state right after mounting: \<^verbatim>\<open>useState('cart')\<close>, \<^verbatim>\<open>useState([])\<close>, and so on.\<close>

definition initial :: "('addr, 'pd) cart_context \<Rightarrow> ('addr, 'pd) checkout" where
  "initial c = \<lparr> cart = c, updatingItems = {}, currentStep = Cart, completedSteps = [],
                 isPlacingOrder = False, navigatedTo = None, toasts = [] \<rparr>"

section \<open>Step navigation\<close>

text \<open>\<^verbatim>\<open>Array.prototype.indexOf\<close>: the first index of the element, or \<open>-1\<close>.\<close>

fun indexOf :: "'a list \<Rightarrow> 'a \<Rightarrow> int" where
  "indexOf [] x = - 1"
| "indexOf (y # ys) x =
     (if y = x then 0 else (let i = indexOf ys x in if i < 0 then - 1 else i + 1))"

text \<open>\<^verbatim>\<open>const steps: CheckoutStep[] = ['cart', 'shipping', 'payment', 'review']\<close>.\<close>

definition steps :: "CheckoutStep list" where
  "steps = [Cart, Shipping, Payment, Review]"

text \<open>
  \<^verbatim>\<open>handleStepComplete(step)\<close>. The test reads \<^verbatim>\<open>completedSteps\<close> of the render the
  handler was created in (the first argument); the update
  \<^verbatim>\<open>setCompletedSteps(prev => [...prev, step])\<close> appends to the pending state.
\<close>

definition handleStepComplete ::
  "CheckoutStep list \<Rightarrow> CheckoutStep \<Rightarrow> ('addr, 'pd) checkout \<Rightarrow> ('addr, 'pd) checkout" where
  "handleStepComplete rendered step s =
     (if step \<notin> set rendered
      then s\<lparr>completedSteps := completedSteps s @ [step]\<rparr>
      else s)"

text \<open>
  \<^verbatim>\<open>handleNext()\<close>. The index guard makes \<^verbatim>\<open>steps[currentIndex + 1]\<close> an in-range read.
\<close>

definition handleNext :: "('addr, 'pd) checkout \<Rightarrow> ('addr, 'pd) checkout" where
  "handleNext s =
     (let currentIndex = indexOf steps (currentStep s);
          s1 = handleStepComplete (completedSteps s) (currentStep s) s
      in if currentIndex < int (length steps) - 1
         then s1\<lparr>currentStep := steps ! nat (currentIndex + 1)\<rparr>
         else s1)"

text \<open>\<^verbatim>\<open>handleBack()\<close>.\<close>

definition handleBack :: "('addr, 'pd) checkout \<Rightarrow> ('addr, 'pd) checkout" where
  "handleBack s =
     (let currentIndex = indexOf steps (currentStep s)
      in if currentIndex > 0
         then s\<lparr>currentStep := steps ! nat (currentIndex - 1)\<rparr>
         else s)"

text \<open>The sections the review screen can ask to edit, and \<^verbatim>\<open>stepMap\<close>.\<close>

datatype edit_section = SectionCart | SectionAddress | SectionDelivery | SectionPayment

fun stepMap :: "edit_section \<Rightarrow> CheckoutStep" where
  "stepMap SectionCart = Cart"
| "stepMap SectionAddress = Shipping"
| "stepMap SectionDelivery = Shipping"
| "stepMap SectionPayment = Payment"

text \<open>\<^verbatim>\<open>handleEditSection(section)\<close>.\<close>

definition handleEditSection ::
  "edit_section \<Rightarrow> ('addr, 'pd) checkout \<Rightarrow> ('addr, 'pd) checkout" where
  "handleEditSection sec s = s\<lparr>currentStep := stepMap sec\<rparr>"

text \<open>
  \<^verbatim>\<open>canProceed()\<close>. \<^verbatim>\<open>validatePaymentData\<close> belongs to the cart context and is a
  parameter: a predicate on the payment data. The value is used for its truthiness
  (\<^verbatim>\<open>disabled={!canProceed()}\<close>); the shipping address and the delivery option are
  objects or null, so \<^verbatim>\<open>shippingAddress && deliveryOption\<close> is truthy exactly when both
  are present. The \<^verbatim>\<open>default\<close> branch has no value of \<^verbatim>\<open>CheckoutStep\<close> to reach it.
\<close>

definition canProceed :: "('pd \<Rightarrow> bool) \<Rightarrow> ('addr, 'pd) checkout \<Rightarrow> bool" where
  "canProceed validatePaymentData s =
     (case currentStep s of
        Cart \<Rightarrow> length (items (cart s)) > 0
      | Shipping \<Rightarrow> shippingAddress (cart s) \<noteq> None \<and> deliveryOption (cart s) \<noteq> None
      | Payment \<Rightarrow> validatePaymentData (paymentData (cart s))
      | Review \<Rightarrow> True)"

text \<open>
  The Next buttons of the cart, shipping and payment steps:
  \<^verbatim>\<open><Button onClick={handleNext} disabled={!canProceed()}>\<close>. They are rendered inside
  \<^verbatim>\<open>{(isLoading || items.length > 0) && ...}\<close>, each under its own step
  (\<^verbatim>\<open>{currentStep === 'cart' && ...}\<close> and so on; the review step has none). A button
  that is not rendered or is disabled does not deliver the click.
\<close>

definition nextButton :: "('pd \<Rightarrow> bool) \<Rightarrow> ('addr, 'pd) checkout \<Rightarrow> ('addr, 'pd) checkout" where
  "nextButton validatePaymentData s =
     (let rendered = ((isLoading (cart s) \<or> length (items (cart s)) > 0)
                      \<and> currentStep s \<noteq> Review);
          disabled = (\<not> canProceed validatePaymentData s)
      in if rendered \<and> \<not> disabled then handleNext s else s)"

text \<open>
  \<^verbatim>\<open>handleNext()\<close> with the render that created it kept apart from the pending state:
  \<open>r\<close> is the state that render showed, from which the handler reads \<^verbatim>\<open>currentStep\<close>
  and \<^verbatim>\<open>completedSteps\<close>; \<open>s\<close> is the pending state, to which
  \<^verbatim>\<open>setCompletedSteps(prev => [...prev, step])\<close> and \<^verbatim>\<open>setCurrentStep\<close> are applied. When
  the handler is called a second time before the page has rendered again, \<open>r\<close> is
  still the old state while \<open>s\<close> already holds the first call's updates.
\<close>

definition handleNextOf ::
  "('addr, 'pd) checkout \<Rightarrow> ('addr, 'pd) checkout \<Rightarrow> ('addr, 'pd) checkout" where
  "handleNextOf r s =
     (let currentIndex = indexOf steps (currentStep r);
          s1 = handleStepComplete (completedSteps r) (currentStep r) s
      in if currentIndex < int (length steps) - 1
         then s1\<lparr>currentStep := steps ! nat (currentIndex + 1)\<rparr>
         else s1)"

section \<open>Quantity changes and order placement\<close>

text \<open>
  The functions \<^verbatim>\<open>updateQuantity\<close> and \<^verbatim>\<open>placeOrder\<close> belong to the cart context
  and are parameters. An awaited call either yields a value or throws, and leaves the
  cart context in some state.
\<close>

datatype 'a awaited = Fulfilled 'a | Thrown



text \<open>\<^verbatim>\<open>handleQuantityChange(productId, newQuantity)\<close>.\<close>

definition handleQuantityChange ::
  "(string \<Rightarrow> int \<Rightarrow> ('addr, 'pd) cart_context \<Rightarrow> unit awaited \<times> ('addr, 'pd) cart_context)
   \<Rightarrow> string \<Rightarrow> int \<Rightarrow> ('addr, 'pd) checkout \<Rightarrow> ('addr, 'pd) checkout" where
  "handleQuantityChange updateQuantity productId newQuantity s =
     (if newQuantity < 1 then s
      else
        (let s1 = s\<lparr>updatingItems := insert productId (updatingItems s)\<rparr>;
             (result, c) = updateQuantity productId newQuantity (cart s1);
             s2 = s1\<lparr>cart := c\<rparr>;
             s3 = (case result of
                     Fulfilled _ \<Rightarrow> s2
                   | Thrown \<Rightarrow>
                       s2\<lparr>toasts := toasts s2 @
                         [\<lparr>title = ''Error'', description = ''Failed to update quantity'',
                           variant = Some ''destructive'', duration = None\<rparr>]\<rparr>)
         in s3\<lparr>updatingItems := updatingItems s3 - {productId}\<rparr>))"




section \<open>Order placement of the cart context\<close>



section \<open>Pricing\<close>

text \<open>
  The page only displays \<^verbatim>\<open>totalPrice\<close>, \<^verbatim>\<open>deliveryCharge\<close>, \<^verbatim>\<open>paymentCharge\<close>,
  \<^verbatim>\<open>discountAmount\<close> and \<^verbatim>\<open>finalAmount\<close>; they are computed by the cart context
  (\<^verbatim>\<open>@/hooks/cart-context\<close>), which is not among the source files.
\<close>

text \<open>
  Modelled from the spec: \<^verbatim>\<open>totalPrice\<close> of the cart context, which is missing
  (section 3: "\<^verbatim>\<open>totalPrice\<close> = sum(unitPrice * quantity) over all entries").
\<close>

definition totalPrice :: "('addr, 'pd) cart_context \<Rightarrow> money" where
  "totalPrice c = sum_list (map (\<lambda>i. price i * of_int (quantity i)) (items c))"

text \<open>
  Modelled from the spec: \<^verbatim>\<open>deliveryCharge\<close> of the cart context, which is missing
  (section 4.3: "\<^verbatim>\<open>deliveryCharge = deliveryOption?.price ?? 0\<close>").
\<close>

definition deliveryCharge :: "('addr, 'pd) cart_context \<Rightarrow> money" where
  "deliveryCharge c = (case deliveryOption c of None \<Rightarrow> 0 | Some d \<Rightarrow> option_price d)"

text \<open>
  Modelled from the spec: \<^verbatim>\<open>discountAmount\<close> of the cart context, which is missing
  (section 4.3: "\<^verbatim>\<open>discountAmount = appliedCoupon?.discountAmount ?? 0\<close>").
\<close>

definition discountAmount :: "('addr, 'pd) cart_context \<Rightarrow> money" where
  "discountAmount c =
     (case appliedCoupon c of None \<Rightarrow> 0 | Some k \<Rightarrow> coupon_discountAmount k)"

text \<open>
  Modelled from the spec: \<^verbatim>\<open>finalAmount\<close> of the cart context, which is missing
  (section 4.3: "\<^verbatim>\<open>finalAmount = max(0, subtotal + deliveryCharge + paymentCharge -
  discountAmount)\<close>"). The surcharge of the payment method
  ("paymentMethod-specific surcharge, 0 if none") is the parameter \<open>paymentCharge\<close>.
\<close>

definition finalAmount :: "('pd \<Rightarrow> money) \<Rightarrow> ('addr, 'pd) cart_context \<Rightarrow> money" where
  "finalAmount paymentCharge c =
     max 0 (totalPrice c + deliveryCharge c + paymentCharge (paymentData c) - discountAmount c)"

section \<open>Address form validation\<close>

text \<open>\<^verbatim>\<open>const ALLOWED_PIN_CODES\<close>.\<close>

definition ALLOWED_PIN_CODES :: "string list" where
  "ALLOWED_PIN_CODES =
     [''560034'', ''560095'', ''560030'', ''560047'', ''560068'', ''560076'',
      ''560102'', ''560011'', ''560041'', ''560069'', ''560027'', ''560025'',
      ''560038'', ''560071'', ''560001'', ''560008'', ''560005'', ''560004'',
      ''560006'', ''560003'', ''560066'', ''560037'', ''560100'', ''560064'',
      ''560072'', ''560024'']"

datatype AddressType = Home | Office | Other

text \<open>
  The value the form hands to \<^verbatim>\<open>addressFormSchema\<close>: every text field is a string
  (\<^verbatim>\<open>getDefaultValues\<close> fills each one), the address type is one of the three names
  of \<^verbatim>\<open>z.enum\<close>.
\<close>

record AddressFormData =
  fullname :: string
  phone :: string
  email :: string
  addressline1 :: string
  addressline2 :: string
  landmark :: string
  city :: string
  state :: string
  postalcode :: string
  country :: string
  addresstype :: AddressType
  isdefault :: bool

text \<open>
  The \<^verbatim>\<open>postalcode\<close> rule:
  \<^verbatim>\<open>z.string().min(6, ...).max(6, ...).refine((code) => ALLOWED_PIN_CODES.includes(code))\<close>.
  The value passes when none of the three checks raises an issue.
\<close>

definition postalcodeRule :: "string \<Rightarrow> bool" where
  "postalcodeRule code =
     (length code \<ge> 6 \<and> length code \<le> 6 \<and> code \<in> set ALLOWED_PIN_CODES)"

text \<open>
  \<^verbatim>\<open>addressFormSchema\<close>: the value is accepted when every field passes its rule.
  \<^verbatim>\<open>z.string().email()\<close> is the library's test and is the parameter \<open>isEmail\<close>;
  \<^verbatim>\<open>country\<close>, \<^verbatim>\<open>addresstype\<close> and \<^verbatim>\<open>isdefault\<close> have no rule beyond their type.
\<close>

definition addressFormSchema :: "(string \<Rightarrow> bool) \<Rightarrow> AddressFormData \<Rightarrow> bool" where
  "addressFormSchema isEmail a =
     (length (fullname a) \<ge> 1
      \<and> length (phone a) \<ge> 10
      \<and> isEmail (email a)
      \<and> length (addressline1 a) \<ge> 1
      \<and> length (addressline2 a) \<ge> 1
      \<and> length (landmark a) \<ge> 1
      \<and> length (city a) \<ge> 1
      \<and> length (state a) \<ge> 1
      \<and> postalcodeRule (postalcode a))"

section \<open>Product listing\<close>

text \<open>
  What \<^verbatim>\<open>ProductsListing\<close> renders: the spinner while the query is loading, otherwise
  the header count ("N products found"), the product cards of the grid, the
  "No products found" notice and the footer count ("Showing N products").
\<close>

datatype 'p listing =
    Spinner
  | Grid (found: nat) (cards: "'p list") (noProductsNotice: bool) (showing: nat)

text \<open>
  \<^verbatim>\<open>products?.length || 0\<close>, where \<^verbatim>\<open>products\<close> is the list the query function returned
  (its filtered result), or undefined.
\<close>

definition lengthOrZero :: "'p list option \<Rightarrow> nat" where
  "lengthOrZero products =
     (case products of
        None \<Rightarrow> 0
      | Some ps \<Rightarrow> (if length ps = 0 then 0 else length ps))"

text \<open>
  The render of \<^verbatim>\<open>ProductsListing\<close>; \<open>loading\<close> is the query's \<^verbatim>\<open>isLoading\<close>.
\<close>

definition ProductsListing :: "bool \<Rightarrow> 'p list option \<Rightarrow> 'p listing" where
  "ProductsListing loading products =
     (if loading then Spinner
      else Grid
        (lengthOrZero products)
        (case products of None \<Rightarrow> [] | Some ps \<Rightarrow> take 240 ps)
        (case products of None \<Rightarrow> False | Some ps \<Rightarrow> length ps = 0)
        (min (lengthOrZero products) 240))"

section \<open>Example values\<close>

text \<open>
  Concrete carts, collaborators and form values, used to evaluate the handlers. The
  shipping address is a string here and the payment data a flag that
  \<^verbatim>\<open>validatePaymentData\<close> returns.
\<close>

definition emptyContext :: "(string, bool) cart_context" where
  "emptyContext = \<lparr> items = [], appliedCoupon = None, paymentData = False,
                     shippingAddress = None, deliveryOption = None, isLoading = False \<rparr>"

definition roses :: CartItem where
  "roses = \<lparr> item_id = ''p1'', item_name = ''Red Roses'', price = 600, quantity = 2,
             category = None, image = None \<rparr>"

definition rosesContext :: "(string, bool) cart_context" where
  "rosesContext = emptyContext\<lparr>items := [roses]\<rparr>"

definition freeDelivery :: DeliveryOption where
  "freeDelivery = \<lparr> option_id = ''d1'', option_name = ''Standard'', option_price = 0,
                    estimatedDays = None \<rparr>"

text \<open>An \<^verbatim>\<open>updateQuantity\<close> that stores the new quantity on the matching line.\<close>

definition setQuantity ::
  "string \<Rightarrow> int \<Rightarrow> (string, bool) cart_context
     \<Rightarrow> unit awaited \<times> (string, bool) cart_context" where
  "setQuantity productId newQuantity c =
     (Fulfilled (),
      c\<lparr>items := map (\<lambda>i. if item_id i = productId then i\<lparr>quantity := newQuantity\<rparr> else i)
                      (items c)\<rparr>)"





definition exampleAddress :: AddressFormData where
  "exampleAddress =
     \<lparr> fullname = ''Asha Rao'', phone = ''9876543210'', email = ''asha@example.com'',
       addressline1 = ''12 MG Road'', addressline2 = ''Koramangala'',
       landmark = ''Forum Mall'', city = ''Bengaluru'', state = ''Karnataka'',
       postalcode = ''560034'', country = ''India'', addresstype = Home,
       isdefault = False \<rparr>"

section \<open>Properties of the step navigation\<close>

lemma indexOf_steps:
  "indexOf steps Cart = 0" "indexOf steps Shipping = 1"
  "indexOf steps Payment = 2" "indexOf steps Review = 3"
  by (simp_all add: steps_def)

lemma currentStep_handleStepComplete:
  "currentStep (handleStepComplete rendered step s) = currentStep s"
  by (simp add: handleStepComplete_def)

text \<open>
  Claim C3. \<^verbatim>\<open>canProceed\<close> holds at the cart step exactly when the cart has an item, at
  the shipping step exactly when a shipping address and a delivery option are both
  selected, at the payment step exactly when the payment data passes
  \<^verbatim>\<open>validatePaymentData\<close>, and always at the review step.
\<close>

theorem canProceed_per_step:
  "canProceed v (s\<lparr>currentStep := Cart\<rparr>) = (length (items (cart s)) > 0)
   \<and> canProceed v (s\<lparr>currentStep := Shipping\<rparr>) =
       (shippingAddress (cart s) \<noteq> None \<and> deliveryOption (cart s) \<noteq> None)
   \<and> canProceed v (s\<lparr>currentStep := Payment\<rparr>) = v (paymentData (cart s))
   \<and> canProceed v (s\<lparr>currentStep := Review\<rparr>) = True"
  by (simp add: canProceed_def)

text \<open>
  Claim C1, as stated: calling \<^verbatim>\<open>handleNext\<close> while \<^verbatim>\<open>canProceed()\<close> is false leaves
  \<^verbatim>\<open>currentStep\<close> unchanged. It fails: with an empty cart at the cart step
  \<^verbatim>\<open>canProceed()\<close> is false, and \<^verbatim>\<open>handleNext\<close> moves on to the shipping step.
\<close>

theorem handleNext_ignores_canProceed_counterexample:
  "\<not> canProceed (\<lambda>p. p) (initial emptyContext)
   \<and> currentStep (initial emptyContext) = Cart
   \<and> currentStep (handleNext (initial emptyContext)) = Shipping"
  by (simp add: canProceed_def initial_def emptyContext_def handleNext_def
        handleStepComplete_def indexOf_steps, simp add: steps_def)

text \<open>
  Claim C1, amended. \<^verbatim>\<open>handleNext\<close> does not consult \<^verbatim>\<open>canProceed\<close>: it marks the
  current step complete and moves from cart to shipping, from shipping to payment and
  from payment to review whatever the state of the cart, and stays at review. The
  refusal is the Next button's: the button is disabled while \<^verbatim>\<open>canProceed()\<close> is
  false, and pressing it then changes nothing at all.
\<close>

theorem handleNext_unconditional_button_gated:
  "currentStep (handleNext s) =
     (case currentStep s of Cart \<Rightarrow> Shipping | Shipping \<Rightarrow> Payment
        | Payment \<Rightarrow> Review | Review \<Rightarrow> Review)
   \<and> currentStep s \<in> set (completedSteps (handleNext s))
   \<and> (\<not> canProceed v s \<longrightarrow> nextButton v s = s)"
proof -
  have "currentStep (handleNext s) =
     (case currentStep s of Cart \<Rightarrow> Shipping | Shipping \<Rightarrow> Payment
        | Payment \<Rightarrow> Review | Review \<Rightarrow> Review)"
    by (cases "currentStep s")
       (simp_all add: handleNext_def Let_def indexOf_steps currentStep_handleStepComplete,
        simp_all add: steps_def)
  moreover have "currentStep s \<in> set (completedSteps (handleNext s))"
    by (simp add: handleNext_def Let_def handleStepComplete_def)
  moreover have "\<not> canProceed v s \<longrightarrow> nextButton v s = s"
    by (simp add: nextButton_def Let_def)
  ultimately show ?thesis by simp
qed

theorem handleNext_unconditional_button_gated_witness:
  "\<not> canProceed (\<lambda>p. p) (initial emptyContext)
   \<and> nextButton (\<lambda>p. p) (initial emptyContext) = initial emptyContext
   \<and> currentStep (nextButton (\<lambda>p. p) (initial rosesContext)) = Shipping
   \<and> completedSteps (handleNext (initial emptyContext)) = [Cart]"
  using handleNext_unconditional_button_gated [of "initial emptyContext" "\<lambda>p. p"]
  by (simp add: canProceed_def initial_def emptyContext_def rosesContext_def nextButton_def
        handleNext_def handleStepComplete_def indexOf_steps Let_def, simp add: steps_def)

text \<open>
  Claim C4. \<^verbatim>\<open>handleBack\<close> takes no condition into account: it moves from shipping to
  cart, from payment to shipping and from review to payment, and does nothing at the
  cart step. Nothing but \<^verbatim>\<open>currentStep\<close> changes; in particular
  \<^verbatim>\<open>completedSteps\<close> after the call is \<^verbatim>\<open>completedSteps\<close> before it.
\<close>

theorem handleBack_previous_step:
  "handleBack (s\<lparr>currentStep := Cart\<rparr>) = s\<lparr>currentStep := Cart\<rparr>
   \<and> handleBack (s\<lparr>currentStep := Shipping\<rparr>) = s\<lparr>currentStep := Cart\<rparr>
   \<and> handleBack (s\<lparr>currentStep := Payment\<rparr>) = s\<lparr>currentStep := Shipping\<rparr>
   \<and> handleBack (s\<lparr>currentStep := Review\<rparr>) = s\<lparr>currentStep := Payment\<rparr>
   \<and> completedSteps (handleBack s) = completedSteps s"
  by (simp add: handleBack_def Let_def indexOf_steps, simp add: steps_def)

text \<open>
  Claim C8. \<^verbatim>\<open>handleEditSection\<close> sets \<^verbatim>\<open>currentStep\<close> to the step of the named
  section (cart to cart, address and delivery to shipping, payment to payment). It
  reads nothing of the state, so no validation can stop it, and every other component
  of the state is as before.
\<close>

theorem handleEditSection_jumps:
  "handleEditSection SectionCart s = s\<lparr>currentStep := Cart\<rparr>
   \<and> handleEditSection SectionAddress s = s\<lparr>currentStep := Shipping\<rparr>
   \<and> handleEditSection SectionDelivery s = s\<lparr>currentStep := Shipping\<rparr>
   \<and> handleEditSection SectionPayment s = s\<lparr>currentStep := Payment\<rparr>"
  by (simp add: handleEditSection_def)

section \<open>Completed steps\<close>

lemma handleNextOf_same: "handleNextOf s s = handleNext s"
  by (simp add: handleNextOf_def handleNext_def)


section \<open>Properties of quantity changes and order placement\<close>

text \<open>
  Claim C5. \<^verbatim>\<open>handleQuantityChange\<close> with a new quantity below 1 returns at once: the
  cart, and with it the whole state, is as before; the line is not removed and
  \<^verbatim>\<open>updateQuantity\<close> is not called. This holds for every product id, in the cart or
  not.
\<close>

theorem handleQuantityChange_below_one:
  "newQuantity < 1 \<Longrightarrow> handleQuantityChange upd productId newQuantity s = s"
  by (simp add: handleQuantityChange_def)

theorem handleQuantityChange_below_one_witness:
  "(0::int) < 1
   \<and> handleQuantityChange setQuantity ''p1'' 0 (initial rosesContext) = initial rosesContext
   \<and> items (cart (handleQuantityChange setQuantity ''p1'' 0 (initial rosesContext))) = [roses]
   \<and> items (cart (handleQuantityChange setQuantity ''p1'' 1 (initial rosesContext))) =
       [roses\<lparr>quantity := 1\<rparr>]"
  using handleQuantityChange_below_one [of 0 setQuantity "''p1''" "initial rosesContext"]
  by (simp add: initial_def rosesContext_def emptyContext_def handleQuantityChange_def
        setQuantity_def roses_def)







section \<open>Properties of the pricing\<close>

text \<open>
  Claim C2. The final amount is the larger of 0 and subtotal plus delivery charge
  plus payment charge minus discount, where the subtotal is the sum of unit price
  times quantity over the cart lines, the delivery charge is the price of the
  selected delivery option or 0 without one, and the discount is the applied
  coupon's or 0 without one; so the final amount is never negative.
\<close>

theorem finalAmount_formula:
  "finalAmount pc c =
     max 0 ((\<Sum>i\<leftarrow>items c. price i * of_int (quantity i))
            + (case deliveryOption c of None \<Rightarrow> 0 | Some d \<Rightarrow> option_price d)
            + pc (paymentData c)
            - (case appliedCoupon c of None \<Rightarrow> 0 | Some k \<Rightarrow> coupon_discountAmount k))
   \<and> 0 \<le> finalAmount pc c"
  by (simp add: finalAmount_def totalPrice_def deliveryCharge_def discountAmount_def)

theorem finalAmount_formula_witness:
  "finalAmount (\<lambda>p. 0) (rosesContext\<lparr>deliveryOption := Some freeDelivery\<rparr>) = 1200
   \<and> finalAmount (\<lambda>p. 0)
        (rosesContext\<lparr>appliedCoupon :=
           Some \<lparr>coupon_code = ''SAVE5000'', coupon_discountAmount = 5000\<rparr>\<rparr>) = 0"
  using finalAmount_formula [of "\<lambda>p. 0" "rosesContext\<lparr>deliveryOption := Some freeDelivery\<rparr>"]
    finalAmount_formula [of "\<lambda>p. 0" "rosesContext\<lparr>appliedCoupon :=
           Some \<lparr>coupon_code = ''SAVE5000'', coupon_discountAmount = 5000\<rparr>\<rparr>"]
  by (simp add: rosesContext_def emptyContext_def roses_def freeDelivery_def)

section \<open>Properties of the address form validation\<close>

text \<open>
  Claim C7. A postal code passes its rule exactly when it has 6 characters and is one
  of \<^verbatim>\<open>ALLOWED_PIN_CODES\<close>; an address the schema accepts has such a postal code, so
  every other postal code is rejected. "560099" fails the rule and makes every address
  fail; "560034" passes the rule, and an address with it is accepted exactly when
  its other fields pass their rules.
\<close>

theorem postalcode_allow_list:
  "postalcodeRule code = (length code = 6 \<and> code \<in> set ALLOWED_PIN_CODES)
   \<and> (addressFormSchema isEmail a \<longrightarrow>
        length (postalcode a) = 6 \<and> postalcode a \<in> set ALLOWED_PIN_CODES)
   \<and> \<not> postalcodeRule ''560099''
   \<and> \<not> addressFormSchema isEmail (a\<lparr>postalcode := ''560099''\<rparr>)
   \<and> postalcodeRule ''560034''
   \<and> addressFormSchema isEmail (a\<lparr>postalcode := ''560034''\<rparr>) =
       (length (fullname a) \<ge> 1 \<and> length (phone a) \<ge> 10 \<and> isEmail (email a)
        \<and> length (addressline1 a) \<ge> 1 \<and> length (addressline2 a) \<ge> 1
        \<and> length (landmark a) \<ge> 1 \<and> length (city a) \<ge> 1 \<and> length (state a) \<ge> 1)"
proof -
  have rule: "postalcodeRule c = (length c = 6 \<and> c \<in> set ALLOWED_PIN_CODES)" for c
    by (auto simp add: postalcodeRule_def)
  have out: "''560099'' \<notin> set ALLOWED_PIN_CODES"
    by (simp add: ALLOWED_PIN_CODES_def)
  have inn: "''560034'' \<in> set ALLOWED_PIN_CODES"
    by (simp add: ALLOWED_PIN_CODES_def)
  show ?thesis
    using out inn by (simp add: rule addressFormSchema_def)
qed

theorem postalcode_allow_list_witness:
  "addressFormSchema (\<lambda>e. CHR ''@'' \<in> set e) exampleAddress
   \<and> length (postalcode exampleAddress) = 6
   \<and> postalcode exampleAddress \<in> set ALLOWED_PIN_CODES
   \<and> \<not> addressFormSchema (\<lambda>e. CHR ''@'' \<in> set e) (exampleAddress\<lparr>postalcode := ''560099''\<rparr>)
   \<and> \<not> postalcodeRule ''56003''
   \<and> \<not> postalcodeRule ''5600345''"
  using postalcode_allow_list [of "''56003''" "\<lambda>e. CHR ''@'' \<in> set e" exampleAddress]
  by (simp add: exampleAddress_def ALLOWED_PIN_CODES_def postalcodeRule_def)

section \<open>Properties of the product listing\<close>

text \<open>
  Claim C10. Once the query has loaded, the grid shows the first 240 products of the
  list the query returned and nothing else, so never more than 240 cards however long
  the list is; the footer count "Showing N products" is the smaller of the length of
  that list and 240, which is the number of cards shown.
\<close>

theorem ProductsListing_first_240:
  "cards (ProductsListing False (Some ps)) = take 240 ps
   \<and> cards (ProductsListing False None) = []
   \<and> length (cards (ProductsListing False products)) \<le> 240
   \<and> showing (ProductsListing False (Some ps)) = min (length ps) 240
   \<and> showing (ProductsListing False products) =
       length (cards (ProductsListing False products))"
  by (cases products) (simp_all add: ProductsListing_def lengthOrZero_def)

end
